theory Spec2Isabelle
  imports Main "HOL-Library.Word"
begin

section \<open>Timestamps: the time value of a JavaScript Date\<close>

text \<open>
  A JavaScript \<^verbatim>\<open>Date\<close> holds a time value: the number of milliseconds since
  1970-01-01T00:00:00Z. The accessors below are the ECMAScript abstract operations
  \<^verbatim>\<open>Day\<close>, \<^verbatim>\<open>WeekDay\<close>, \<^verbatim>\<open>HourFromTime\<close>,
  \<^verbatim>\<open>MinFromTime\<close>, \<^verbatim>\<open>SecFromTime\<close>, \<^verbatim>\<open>msFromTime\<close>
  and \<^verbatim>\<open>MakeDate (Day t) (MakeTime h m s ms)\<close>, on integer arguments. Division
  and modulo round towards minus infinity, as \<^verbatim>\<open>floor\<close> and the ECMAScript
  \<^verbatim>\<open>modulo\<close> do. The range limit of a Date (8.64e15 ms either side of the epoch,
  beyond which the Date is invalid) is not modelled.
\<close>

type_synonym timestamp = int

definition msPerSecond :: int where "msPerSecond = 1000"
definition msPerMinute :: int where "msPerMinute = 60000"
definition msPerHour :: int where "msPerHour = 3600000"
definition msPerDay :: int where "msPerDay = 86400000"

definition epoch :: timestamp where
  \<comment> \<open>\<^verbatim>\<open>new Date("1970-01-01T00:00:00Z")\<close>\<close>
  "epoch = 0"

definition utcDayNumber :: "timestamp \<Rightarrow> int" where
  "utcDayNumber t = t div msPerDay"

definition getUTCDay :: "timestamp \<Rightarrow> int" where
  \<comment> \<open>0 = Sunday ... 6 = Saturday; day 0 of the epoch was a Thursday\<close>
  "getUTCDay t = (utcDayNumber t + 4) mod 7"

definition getUTCHours :: "timestamp \<Rightarrow> int" where
  "getUTCHours t = (t div msPerHour) mod 24"

definition getUTCMinutes :: "timestamp \<Rightarrow> int" where
  "getUTCMinutes t = (t div msPerMinute) mod 60"

definition getUTCSeconds :: "timestamp \<Rightarrow> int" where
  "getUTCSeconds t = (t div msPerSecond) mod 60"

definition getUTCMilliseconds :: "timestamp \<Rightarrow> int" where
  "getUTCMilliseconds t = t mod msPerSecond"

definition setUTCHours :: "timestamp \<Rightarrow> int \<Rightarrow> int \<Rightarrow> int \<Rightarrow> int \<Rightarrow> timestamp" where
  "setUTCHours t h m s ms =
     utcDayNumber t * msPerDay + (h * msPerHour + m * msPerMinute + s * msPerSecond + ms)"

section \<open>Canonical time of day\<close>

text \<open>
  \<^verbatim>\<open>
  function createCanonicalTimeOfDay(hour24: number, minute: number): Date {
    const canonicalDate = new Date("1970-01-01T00:00:00Z");
    canonicalDate.setUTCHours(hour24, minute, 0, 0);
    return canonicalDate;
  }
  \<close>
  The two scripts that declare this helper differ only in the spelling of the epoch
  literal.
\<close>

definition createCanonicalTimeOfDay :: "int \<Rightarrow> int \<Rightarrow> timestamp" where
  "createCanonicalTimeOfDay hour24 minute = setUTCHours epoch hour24 minute 0 0"

section \<open>The digest cron dispatcher\<close>

record Premium =
  lemonSqueezyRenewsAt :: "timestamp option"
  stripeSubscriptionStatus :: "string option"

record User =
  premium :: "Premium option"

text \<open>The field \<open>accountId\<close> is the source's \<^verbatim>\<open>emailAccount.id\<close>.\<close>

record EmailAccount =
  accountId :: string
  email :: string
  createdAt :: timestamp
  user :: User

record ScheduleRow =
  nextOccurrenceAt :: "timestamp option"
  emailAccount :: EmailAccount

text \<open>The body of one publish request sent to the queue.\<close>

record DigestJob =
  emailAccountId :: string

datatype js_error = TypeError

definition isDue :: "timestamp \<Rightarrow> ScheduleRow \<Rightarrow> bool" where
  \<comment> \<open>the query filter \<^verbatim>\<open>nextOccurrenceAt: { lte: now }\<close>; a null column never matches\<close>
  "isDue now s = (case nextOccurrenceAt s of None \<Rightarrow> False | Some t \<Rightarrow> t \<le> now)"

text \<open>
  \<^verbatim>\<open>subDays\<close> is a function of the date-fns library: it moves the calendar day of the
  host's time zone, so what it returns depends on that zone and its clock changes. It is
  a parameter of the dispatcher, of the library's type (a date and a number of days).
\<close>

type_synonym subDaysFn = "timestamp \<Rightarrow> int \<Rightarrow> timestamp"

definition isPremium :: "timestamp \<Rightarrow> EmailAccount \<Rightarrow> bool" where
  "isPremium now a =
     (case premium (user a) of
        None \<Rightarrow> False
      | Some p \<Rightarrow>
          (case lemonSqueezyRenewsAt p of None \<Rightarrow> False | Some r \<Rightarrow> now < r)
          \<or> (case stripeSubscriptionStatus p of None \<Rightarrow> '''' | Some st \<Rightarrow> st)
               \<in> set [''active'', ''trialing''])"

definition isOldEnough :: "subDaysFn \<Rightarrow> timestamp \<Rightarrow> EmailAccount \<Rightarrow> bool" where
  "isOldEnough subDays now a = (createdAt a < subDays now 1)"

definition eligibleSchedules :: "subDaysFn \<Rightarrow> timestamp \<Rightarrow> ScheduleRow list \<Rightarrow> ScheduleRow list" where
  "eligibleSchedules subDays now rows =
     filter (\<lambda>s. isPremium now (emailAccount s) \<and> isOldEnough subDays now (emailAccount s))
       (filter (isDue now) rows)"

text \<open>
  \<^verbatim>\<open>Array.from(new Set(xs))\<close>: a Set keeps each value once, in the order of its
  first insertion.
\<close>

fun setAdd :: "'a list \<Rightarrow> 'a \<Rightarrow> 'a list" where
  "setAdd seen x = (if x \<in> set seen then seen else seen @ [x])"

definition arrayFromSet :: "'a list \<Rightarrow> 'a list" where
  "arrayFromSet xs = foldl setAdd [] xs"

text \<open>
  \<^verbatim>\<open>
  const emailAccounts = Array.from(emailAccountIds).map((id) => {
    const schedule = eligibleSchedules.find((s) => s.emailAccount.id === id);
    return { id, email: schedule!.emailAccount.email };
  });
  \<close>
  Reading \<^verbatim>\<open>emailAccount\<close> of an undefined \<^verbatim>\<open>schedule\<close> throws a TypeError.
\<close>

fun lookupAccounts :: "ScheduleRow list \<Rightarrow> string list \<Rightarrow> js_error + (string \<times> string) list" where
  "lookupAccounts eligible [] = Inr []"
| "lookupAccounts eligible (i # ids) =
     (case find (\<lambda>s. accountId (emailAccount s) = i) eligible of
        None \<Rightarrow> Inl TypeError
      | Some s \<Rightarrow>
          (case lookupAccounts eligible ids of
             Inl e \<Rightarrow> Inl e
           | Inr rest \<Rightarrow> Inr ((i, email (emailAccount s)) # rest)))"

text \<open>
  The dispatcher returns the publish requests it issued, in order, and the count it
  reports. A request that fails is caught and logged inside the loop, so every account of
  the list is attempted once whatever the queue answers.
\<close>

definition sendDigestAllUpdate :: "subDaysFn \<Rightarrow> timestamp \<Rightarrow> ScheduleRow list \<Rightarrow> js_error + (DigestJob list \<times> nat)" where
  "sendDigestAllUpdate subDays now rows =
     (let eligible = eligibleSchedules subDays now rows;
          emailAccountIds = arrayFromSet (map (\<lambda>s. accountId (emailAccount s)) eligible)
      in case lookupAccounts eligible emailAccountIds of
           Inl e \<Rightarrow> Inl e
         | Inr emailAccounts \<Rightarrow>
             Inr (map (\<lambda>a. \<lparr>emailAccountId = fst a\<rparr>) emailAccounts, length emailAccounts))"

section \<open>The next-occurrence calculator\<close>

text \<open>
  The scripts and the settings action call \<^verbatim>\<open>calculateNextScheduleDate\<close> from
  \<^verbatim>\<open>utils/schedule\<close>; that module is not among the sources at hand. Its
  definitions below are therefore modelled from the contract of the specification
  (section 4.1) and its testable properties (section 8), sentence by sentence. The
  ambient clock is the explicit parameter \<open>now\<close>.
\<close>

text \<open>
  Modelled from the spec: the input record of \<^verbatim>\<open>calculateNext\<close> (the Schedule fields
  of section 3; \<^verbatim>\<open>utils/schedule\<close> is missing). The day-of-week mask is the 7-bit
  mask of the data model, which is also what \<^verbatim>\<open>createScheduleSchema\<close> admits
  (an integer from 0 to 127).
\<close>

record Schedule =
  intervalDays :: int
  daysOfWeek :: "7 word option"
  timeOfDay :: timestamp
  occurrences :: int
  lastOccurrenceAt :: "timestamp option"

text \<open>
  Modelled from the spec: the output \<^verbatim>\<open>timestamp | null\<close> of the missing
  \<^verbatim>\<open>calculateNext\<close>.
\<close>

datatype result = Null | Timestamp timestamp

text \<open>
  Modelled from the spec: the weekday test of the missing \<^verbatim>\<open>calculateNext\<close>, "bit 0 =
  Sunday ... bit 6 = Saturday", the encoding that \<^verbatim>\<open>readUserSchedules\<close> decodes with
  \<^verbatim>\<open>daysOfWeek & 0b0000001\<close> (Sunday) to \<^verbatim>\<open>daysOfWeek & 0b1000000\<close> (Saturday).
\<close>

definition dayAllowed :: "7 word \<Rightarrow> timestamp \<Rightarrow> bool" where
  "dayAllowed wmask t = bit wmask (nat (getUTCDay t))"

text \<open>
  Modelled from the spec: the search of the missing \<^verbatim>\<open>calculateNext\<close>, "advance
  further to the next date whose weekday bit is set in the mask". A date that is already
  allowed is kept; otherwise the search moves on one day at a time, keeping the time of
  day. The search is a loop with no bound of its own, so not returning is the value
  \<open>None\<close>.
\<close>

partial_function (option) advanceToAllowedDay :: "7 word \<Rightarrow> timestamp \<Rightarrow> timestamp option" where
  "advanceToAllowedDay wmask t =
     (if dayAllowed wmask t then Some t else advanceToAllowedDay wmask (t + msPerDay))"

text \<open>
  Modelled from the spec: the day-of-week rule of the missing \<^verbatim>\<open>calculateNext\<close>.
  \<open>None\<close> for the mask means "every day". For the mask with no bit set the
  specification leaves the policy to the implementer, "failing or treating as every day";
  the resolution taken here is "every day", which is how \<^verbatim>\<open>readUserSchedules\<close>
  describes such a schedule.
\<close>

definition constrainDay :: "7 word option \<Rightarrow> timestamp \<Rightarrow> timestamp option" where
  "constrainDay dow t =
     (case dow of
        None \<Rightarrow> Some t
      | Some wmask \<Rightarrow> if wmask = 0 then Some t else advanceToAllowedDay wmask t)"

text \<open>
  Modelled from the spec: the future check of the missing \<^verbatim>\<open>calculateNext\<close>, "Output
  must be strictly in the future relative to now at call time; if naive advancement lands
  in the past, roll forward one additional interval/day". A candidate that is not after
  \<open>now\<close> is rolled forward by one more interval of \<open>n\<close> days and moved to an
  allowed weekday again; the rule is applied until the candidate is after \<open>now\<close>, since
  one roll does not reach the future from a last occurrence that is more than an interval
  old. Not returning is the value \<open>None\<close>.
\<close>

partial_function (option) ensureFuture :: "timestamp \<Rightarrow> int \<Rightarrow> 7 word option \<Rightarrow> timestamp \<Rightarrow> timestamp option" where
  "ensureFuture now n dow t =
     (if now < t then Some t
      else Option.bind (constrainDay dow (t + n * msPerDay)) (ensureFuture now n dow))"

text \<open>
  Modelled from the spec: the snap of the missing \<^verbatim>\<open>calculateNext\<close>, "snap the
  time-of-day to the schedule's timeOfDay (hour/minute, UTC)": the UTC date is kept, the
  hour and minute are those of \<open>timeOfDay\<close>, seconds and milliseconds are zero.
\<close>

definition snapTimeOfDay :: "timestamp \<Rightarrow> timestamp \<Rightarrow> timestamp" where
  "snapTimeOfDay t tod = setUTCHours t (getUTCHours tod) (getUTCMinutes tod) 0 0"

text \<open>
  Modelled from the spec: the naive advancement of the missing \<^verbatim>\<open>calculateNext\<close>,
  "starting from lastOccurrenceAt (or current time if absent), advance by intervalDays
  days, then snap the time-of-day ... If daysOfWeek is set, advance further to the next
  date whose weekday bit is set in the mask". A last occurrence is advanced by
  \<open>intervalDays\<close> days. When there is none the start is the current time and there is
  no occurrence to advance from: the candidate is the current UTC date at the time of
  day. That is the first run of section 8, "today at 09:00 UTC if current time < 09:00,
  else tomorrow at 09:00 UTC", and the contract's own example of a naive advancement that
  lands in the past, "time-of-day already passed today".
\<close>

definition naiveAdvance :: "timestamp \<Rightarrow> Schedule \<Rightarrow> timestamp option" where
  "naiveAdvance now s =
     (let advanced = (case lastOccurrenceAt s of
                        None \<Rightarrow> now
                      | Some l \<Rightarrow> l + intervalDays s * msPerDay);
          snapped = snapTimeOfDay advanced (timeOfDay s)
      in constrainDay (daysOfWeek s) snapped)"

text \<open>
  Modelled from the spec: \<^verbatim>\<open>calculateNext(schedule) -> timestamp | null\<close> itself
  (\<^verbatim>\<open>calculateNextScheduleDate\<close> of the missing \<^verbatim>\<open>utils/schedule\<close>). "Returns null
  if inputs are structurally invalid (e.g., non-positive intervalDays)"; otherwise the
  naive advancement, then the future check. The outer \<open>option\<close> is \<open>None\<close> when
  the computation does not return. The field \<open>occurrences\<close> is "reserved" and takes no
  part.
\<close>

definition calculateNext :: "timestamp \<Rightarrow> Schedule \<Rightarrow> result option" where
  "calculateNext now s =
     (if intervalDays s \<le> 0 then Some Null
      else Option.bind (naiveAdvance now s)
             (\<lambda>c. map_option Timestamp (ensureFuture now (intervalDays s) (daysOfWeek s) c)))"

text \<open>The loop equations are the code equations of the two loops.\<close>

declare advanceToAllowedDay.simps [code]
declare ensureFuture.simps [code]

section \<open>Properties of the time primitives\<close>

lemma createCanonicalTimeOfDay_value:
  "createCanonicalTimeOfDay h m = h * 3600000 + m * 60000"
  by (simp add: createCanonicalTimeOfDay_def setUTCHours_def epoch_def utcDayNumber_def
      msPerHour_def msPerMinute_def msPerSecond_def msPerDay_def)

lemma getUTCDay_range: "0 \<le> getUTCDay t \<and> getUTCDay t < 7"
  by (simp add: getUTCDay_def)



section \<open>Termination of the two loops\<close>









section \<open>The naive advancement\<close>






section \<open>Claims about the next-occurrence calculator\<close>

subsection \<open>Allowed weekdays\<close>




subsection \<open>Invalid input\<close>

text \<open>
  C3. For every input record with \<open>intervalDays \<le> 0\<close>, \<open>calculateNext\<close> returns null.
\<close>

theorem calculateNext_nonpositive_interval:
  "intervalDays s \<le> 0 \<Longrightarrow> calculateNext now s = Some Null"
  by (simp add: calculateNext_def)

theorem calculateNext_nonpositive_interval_witness:
  "intervalDays \<lparr>intervalDays = 0, daysOfWeek = Some 0, timeOfDay = 0, occurrences = 1,
       lastOccurrenceAt = None\<rparr> \<le> 0
   \<and> calculateNext 5 \<lparr>intervalDays = 0, daysOfWeek = Some 0, timeOfDay = 0, occurrences = 1,
       lastOccurrenceAt = None\<rparr> = Some Null"
  using calculateNext_nonpositive_interval
    [of "\<lparr>intervalDays = 0, daysOfWeek = Some 0, timeOfDay = 0, occurrences = 1,
       lastOccurrenceAt = None\<rparr>" 5]
  by simp

subsection \<open>The mask with no bit set\<close>




subsection \<open>The first run of a daily schedule\<close>







section \<open>Claims about the canonical time of day\<close>

text \<open>
  C9. For \<open>hour24\<close> from 0 to 23 and \<open>minute\<close> from 0 to 59,
  \<open>createCanonicalTimeOfDay hour24 minute\<close> lies on the day of the epoch, 1970-01-01,
  its UTC hour and minute are \<open>hour24\<close> and \<open>minute\<close>, and its seconds and
  milliseconds are 0.
\<close>

theorem createCanonicalTimeOfDay_fields:
  assumes "0 \<le> hour24" and "hour24 < 24" and "0 \<le> minute" and "minute < 60"
  shows "utcDayNumber (createCanonicalTimeOfDay hour24 minute) = utcDayNumber epoch
       \<and> getUTCHours (createCanonicalTimeOfDay hour24 minute) = hour24
       \<and> getUTCMinutes (createCanonicalTimeOfDay hour24 minute) = minute
       \<and> getUTCSeconds (createCanonicalTimeOfDay hour24 minute) = 0
       \<and> getUTCMilliseconds (createCanonicalTimeOfDay hour24 minute) = 0"
proof -
  define v where "v = hour24 * 3600000 + minute * 60000"
  have v: "createCanonicalTimeOfDay hour24 minute = v"
    by (simp add: v_def createCanonicalTimeOfDay_value)
  have lo: "0 \<le> v" and hi: "v < 86400000"
    using assms by (simp_all add: v_def)
  have day: "v div 86400000 = 0"
    using lo hi by (simp add: div_pos_pos_trivial)
  have "v = 3600000 * hour24 + minute * 60000" by (simp add: v_def)
  moreover have "0 \<le> minute * 60000" "minute * 60000 < 3600000" using assms by simp_all
  ultimately have hq: "v div 3600000 = hour24"
    by (simp add: div_pos_pos_trivial)
  have "v = 60000 * (hour24 * 60 + minute)" by (simp add: v_def)
  then have mq: "v div 60000 = hour24 * 60 + minute" by simp
  have "v = 1000 * (hour24 * 3600 + minute * 60)" by (simp add: v_def)
  then have sq: "v div 1000 = 60 * (hour24 * 60 + minute)" and ms: "v mod 1000 = 0" by simp_all
  show ?thesis
    unfolding v using assms day hq mq sq ms
    by (simp add: utcDayNumber_def epoch_def getUTCHours_def getUTCMinutes_def getUTCSeconds_def
        getUTCMilliseconds_def msPerDay_def msPerHour_def msPerMinute_def msPerSecond_def)
qed

theorem createCanonicalTimeOfDay_fields_witness:
  "(0::int) \<le> 17 \<and> (17::int) < 24 \<and> (0::int) \<le> 30 \<and> (30::int) < 60
   \<and> createCanonicalTimeOfDay 17 30 = 63000000
   \<and> utcDayNumber (createCanonicalTimeOfDay 17 30) = utcDayNumber epoch
   \<and> getUTCHours (createCanonicalTimeOfDay 17 30) = 17
   \<and> getUTCMinutes (createCanonicalTimeOfDay 17 30) = 30
   \<and> getUTCSeconds (createCanonicalTimeOfDay 17 30) = 0
   \<and> getUTCMilliseconds (createCanonicalTimeOfDay 17 30) = 0"
  using createCanonicalTimeOfDay_fields [of 17 30]
  by (simp add: createCanonicalTimeOfDay_value)


section \<open>Claims about the digest cron dispatcher\<close>

lemma foldl_setAdd_distinct: "distinct seen \<Longrightarrow> distinct (foldl setAdd seen xs)"
  by (induction xs arbitrary: seen) simp_all

lemma foldl_setAdd_set: "set (foldl setAdd seen xs) = set seen \<union> set xs"
  by (induction xs arbitrary: seen) auto

lemma arrayFromSet_distinct: "distinct (arrayFromSet xs)"
  by (simp add: arrayFromSet_def foldl_setAdd_distinct)

lemma arrayFromSet_set: "set (arrayFromSet xs) = set xs"
  by (simp add: arrayFromSet_def foldl_setAdd_set)

lemma lookupAccounts_finds:
  assumes "set ids \<subseteq> (\<lambda>s. accountId (emailAccount s)) ` set eligible"
  shows "\<exists>accounts. lookupAccounts eligible ids = Inr accounts \<and> map fst accounts = ids"
  using assms
proof (induction ids)
  case Nil
  then show ?case by simp
next
  case (Cons i ids)
  then obtain accounts where rest: "lookupAccounts eligible ids = Inr accounts" "map fst accounts = ids"
    by auto
  from Cons.prems have "\<exists>s\<in>set eligible. accountId (emailAccount s) = i"
    by auto
  then obtain s where "find (\<lambda>s. accountId (emailAccount s) = i) eligible = Some s"
    by (cases "find (\<lambda>s. accountId (emailAccount s) = i) eligible") (auto simp: find_None_iff)
  with rest show ?case by simp
qed

text \<open>
  C10. A run of \<open>sendDigestAllUpdate\<close> does not throw and issues at most one publish
  request per email account: the account ids of its requests are distinct, and they are
  the account ids of the due, eligible schedules, however many of those an account has.
\<close>

theorem sendDigestAllUpdate_one_job_per_account:
  "\<exists>jobs. sendDigestAllUpdate subDays now rows = Inr (jobs, length jobs)
        \<and> distinct (map emailAccountId jobs)
        \<and> set (map emailAccountId jobs)
            = set (map (\<lambda>s. accountId (emailAccount s)) (eligibleSchedules subDays now rows))"
proof -
  define eligible where "eligible = eligibleSchedules subDays now rows"
  define ids where "ids = arrayFromSet (map (\<lambda>s. accountId (emailAccount s)) eligible)"
  have "set ids \<subseteq> (\<lambda>s. accountId (emailAccount s)) ` set eligible"
    by (simp add: ids_def arrayFromSet_set)
  then obtain accounts where acc: "lookupAccounts eligible ids = Inr accounts" "map fst accounts = ids"
    using lookupAccounts_finds by blast
  define jobs where "jobs = map (\<lambda>a. \<lparr>emailAccountId = fst a\<rparr>) accounts"
  have ids: "map emailAccountId jobs = ids"
    using acc(2) by (simp add: jobs_def comp_def)
  have "sendDigestAllUpdate subDays now rows = Inr (jobs, length jobs)"
    using acc(1) by (simp add: sendDigestAllUpdate_def Let_def eligible_def [symmetric] ids_def [symmetric] jobs_def)
  moreover have "distinct (map emailAccountId jobs)"
    unfolding ids by (simp add: ids_def arrayFromSet_distinct)
  moreover have "set (map emailAccountId jobs) = set (map (\<lambda>s. accountId (emailAccount s)) eligible)"
    unfolding ids by (simp add: ids_def arrayFromSet_set)
  ultimately show ?thesis
    unfolding eligible_def by blast
qed

text \<open>
  Two due schedules of one premium account and a schedule of another account that is not
  due yet, on a host whose days all have 24 hours: one request, for the first account.
\<close>

lemma sendDigestAllUpdate_two_due_schedules:
  "sendDigestAllUpdate (\<lambda>t n. t - n * msPerDay) 1000000000
     [\<lparr>nextOccurrenceAt = Some 900000000,
       emailAccount = \<lparr>accountId = ''a1'', email = ''a@example.com'', createdAt = 0,
         user = \<lparr>premium = Some \<lparr>lemonSqueezyRenewsAt = None,
                                  stripeSubscriptionStatus = Some ''active''\<rparr>\<rparr>\<rparr>\<rparr>,
      \<lparr>nextOccurrenceAt = Some 950000000,
       emailAccount = \<lparr>accountId = ''a1'', email = ''a@example.com'', createdAt = 0,
         user = \<lparr>premium = Some \<lparr>lemonSqueezyRenewsAt = None,
                                  stripeSubscriptionStatus = Some ''active''\<rparr>\<rparr>\<rparr>\<rparr>,
      \<lparr>nextOccurrenceAt = Some 2000000000,
       emailAccount = \<lparr>accountId = ''b2'', email = ''b@example.com'', createdAt = 0,
         user = \<lparr>premium = Some \<lparr>lemonSqueezyRenewsAt = None,
                                  stripeSubscriptionStatus = Some ''active''\<rparr>\<rparr>\<rparr>\<rparr>]
   = Inr ([\<lparr>emailAccountId = ''a1''\<rparr>], 1)"
  by (simp add: sendDigestAllUpdate_def eligibleSchedules_def isDue_def isPremium_def
      isOldEnough_def msPerDay_def arrayFromSet_def)

end
